theory Spec2Isabelle
  imports
    Main
    "HOL-Library.AList"
    "HOL-Library.Char_ord"
    "HOL-Library.List_Lexorder"
    "HOL-Library.Product_Lexorder"
    "HOL-Library.Multiset"
begin

section \<open>Python values\<close>

text \<open>
  The functions of \<^verbatim>\<open>inventory_system.py\<close> test their arguments with
  \<^verbatim>\<open>isinstance\<close>, so an argument is a dynamically typed value.  A float matters
  only through \<^verbatim>\<open>int(v)\<close> in \<^verbatim>\<open>load_data\<close>: a finite float is the
  dyadic number \<open>m * 2 ^ e\<close>, and \<^verbatim>\<open>json.load\<close> also yields the two infinities and
  NaN.  Strings are UTF-8 byte lists; comparing them bytewise is comparing the code points.
\<close>

datatype pyfloat = FFinite int int | FInfinity bool | FNaN

datatype pyval =
    VNone
  | VBool bool
  | VInt int
  | VFloat pyfloat
  | VStr string
  | VList "pyval list"
  | VDict "(pyval \<times> pyval) list"

text \<open>
  The exceptions a caller can see.  \<open>ValueError\<close> carries its message.
  \<open>UnicodeDecodeError\<close> is raised when a file read as UTF-8 holds other bytes (a
  subclass of \<^verbatim>\<open>ValueError\<close>, but not a \<^verbatim>\<open>JSONDecodeError\<close>).
  \<open>OverflowError\<close> comes from \<^verbatim>\<open>int(float('inf'))\<close>, \<open>RecursionError\<close> from
  \<^verbatim>\<open>json.load\<close> on text nested too deeply.  \<open>ReadFailure\<close> stands for the
  \<^verbatim>\<open>OSError\<close> that \<^verbatim>\<open>open(file, "r")\<close> raises apart from
  \<^verbatim>\<open>FileNotFoundError\<close> (no permission, a directory).
\<close>

datatype py_error =
  ValueError string | UnicodeDecodeError | OverflowError | RecursionError | ReadFailure

datatype 'a result = Return 'a | Raise py_error

text \<open>\<^verbatim>\<open>isinstance(v, int)\<close> holds for \<^verbatim>\<open>bool\<close> too, with values 1 and 0.\<close>

fun as_int :: "pyval \<Rightarrow> int option" where
  "as_int (VInt n) = Some n"
| "as_int (VBool b) = Some (if b then 1 else 0)"
| "as_int _ = None"

section \<open>Text of integers\<close>

definition digit_char :: "nat \<Rightarrow> char" where
  "digit_char d = ''0123456789'' ! d"

fun digits10 :: "nat \<Rightarrow> string" where
  "digits10 n = (if n < 10 then [digit_char n] else digits10 (n div 10) @ [digit_char (n mod 10)])"

declare digits10.simps [simp del]

definition str_int :: "int \<Rightarrow> string" where
  "str_int i = (if i < 0 then CHR ''-'' # digits10 (nat (- i)) else digits10 (nat i))"

text \<open>The number a string of decimal digits stands for.\<close>

definition decimal_value :: "string \<Rightarrow> nat" where
  "decimal_value s = foldl (\<lambda>a c. 10 * a + (of_char c - 48)) 0 s"

text \<open>
  The interpreter (Python 3.11, default settings) refuses to turn an \<^verbatim>\<open>int\<close> into
  decimal text when the text would have more than 4300 digits, the sign not counted: an
  f-string, \<^verbatim>\<open>str\<close> and \<^verbatim>\<open>json.dump\<close> then raise \<^verbatim>\<open>ValueError\<close> with the
  message \<open>digits_limit_message\<close>.  Reading such a literal raises it with
  \<open>digits_limit_read_message\<close>.
\<close>

definition int_max_str_digits :: nat where
  "int_max_str_digits = 4300"

definition too_long :: "int \<Rightarrow> bool" where
  "too_long n = (int_max_str_digits < length (digits10 (nat \<bar>n\<bar>)))"

definition digits_limit_message :: string where
  "digits_limit_message =
    ''Exceeds the limit (4300 digits) for integer string conversion; ''
    @ ''use sys.set_int_max_str_digits() to increase the limit''"

definition digits_limit_read_message :: "nat \<Rightarrow> string" where
  "digits_limit_read_message n =
    ''Exceeds the limit (4300 digits) for integer string conversion: value has ''
    @ digits10 n @ '' digits; use sys.set_int_max_str_digits() to increase the limit''"

text \<open>
  What an f-string prints for a quantity that passed \<^verbatim>\<open>isinstance(qty, int)\<close>, and
  whether it raises instead: \<^verbatim>\<open>True\<close> and \<^verbatim>\<open>False\<close> are printed as words.
\<close>

fun str_qty :: "pyval \<Rightarrow> string" where
  "str_qty (VBool b) = (if b then ''True'' else ''False'')"
| "str_qty (VInt n) = str_int n"
| "str_qty _ = []"

fun qty_too_long :: "pyval \<Rightarrow> bool" where
  "qty_too_long (VInt n) = too_long n"
| "qty_too_long _ = False"

section \<open>The state: stock, files, logger, standard output\<close>

text \<open>
  \<^verbatim>\<open>stock_data\<close> is a Python dict: an association list in insertion order whose
  keys are distinct.  \<^verbatim>\<open>d[k] = v\<close> is \<open>AList.update\<close> (an existing key keeps its
  place, a new one goes to the end), \<^verbatim>\<open>del d[k]\<close> is \<open>AList.delete\<close>.
\<close>

type_synonym stock = "(string \<times> int) list"

definition dict_get :: "stock \<Rightarrow> string \<Rightarrow> int \<Rightarrow> int" where
  "dict_get d k dflt = (case map_of d k of None \<Rightarrow> dflt | Some v \<Rightarrow> v)"

text \<open>
  A logger call passes a level, a template and its arguments; the text of a caught
  exception is not modelled (\<open>ArgExc\<close>).
\<close>

datatype level = INFO | WARNING | ERROR

datatype log_arg = ArgStr string | ArgInt int | ArgRepr pyval | ArgExc

type_synonym log_record = "level \<times> string \<times> log_arg list"

text \<open>
  A file is represented by what \<^verbatim>\<open>json.load(fh)\<close> does on it: the bytes are not
  UTF-8 (\<^verbatim>\<open>UnicodeDecodeError\<close>); the text is rejected (\<^verbatim>\<open>JSONDecodeError\<close>);
  the text holds an integer literal of \<open>n\<close> digits, more than the limit
  (\<^verbatim>\<open>ValueError\<close>); the text nests arrays or objects beyond the recursion limit
  (\<^verbatim>\<open>RecursionError\<close>); or the value \<^verbatim>\<open>json.load\<close> returns.  \<open>read_fails\<close> and
  \<open>write_fails\<close> say for which paths \<^verbatim>\<open>open\<close> raises \<^verbatim>\<open>OSError\<close>, for
  reading (other than for a missing file) and for writing; a file that cannot be opened
  for writing stays as it was.
\<close>

datatype content = NotUtf8 | Malformed | Oversized nat | TooDeep | Document pyval

record world =
  stock_data :: stock
  files :: "string \<Rightarrow> content option"
  read_fails :: "string \<Rightarrow> bool"
  write_fails :: "string \<Rightarrow> bool"
  logged :: "log_record list"
  printed :: "string list"

definition emit :: "level \<Rightarrow> string \<Rightarrow> log_arg list \<Rightarrow> world \<Rightarrow> world" where
  "emit lv template args w = w\<lparr>logged := logged w @ [(lv, template, args)]\<rparr>"

definition quoted :: "string \<Rightarrow> string" where
  "quoted s = CHR 0x27 # s @ [CHR 0x27]"

section \<open>The operations\<close>

text \<open>
  \<^verbatim>\<open>add_item(item, qty, logs)\<close>.  \<open>now\<close> is the text of
  \<^verbatim>\<open>datetime.now().isoformat()\<close>; the caller's list \<open>logs\<close> is returned as the call
  leaves it.  The stock is written before the log entry is formatted, so when the f-string
  raises (on \<open>qty\<close>, \<open>previous\<close> or the new total) the new quantity is already
  stored, and nothing is appended or logged.
\<close>

definition add_item ::
  "string \<Rightarrow> pyval \<Rightarrow> pyval \<Rightarrow> string list option \<Rightarrow> world
    \<Rightarrow> unit result \<times> string list option \<times> world" where
  "add_item now item qty logs w =
    (case item of
       VStr name \<Rightarrow>
         if name = [] then (Raise (ValueError ''item must be a non-empty string''), logs, w)
         else
           (case as_int qty of
              None \<Rightarrow> (Raise (ValueError ''qty must be an integer''), logs, w)
            | Some n \<Rightarrow>
                if n < 0 then (Raise (ValueError ''qty must be non-negative''), logs, w)
                else
                  let previous = dict_get (stock_data w) name 0;
                      w1 = w\<lparr>stock_data := AList.update name (previous + n) (stock_data w)\<rparr>;
                      current = dict_get (stock_data w1) name 0;
                      entry = now @ '': Added '' @ str_qty qty @ '' of '' @ name
                        @ '' (was '' @ str_int previous @ '', now '' @ str_int current @ '')''
                  in if qty_too_long qty \<or> too_long previous \<or> too_long current
                     then (Raise (ValueError digits_limit_message), logs, w1)
                     else (Return (), map_option (\<lambda>l. l @ [entry]) logs, emit INFO entry [] w1))
     | _ \<Rightarrow> (Raise (ValueError ''item must be a non-empty string''), logs, w))"

definition remove_item :: "pyval \<Rightarrow> pyval \<Rightarrow> world \<Rightarrow> unit result \<times> world" where
  "remove_item item qty w =
    (case item of
       VStr name \<Rightarrow>
         if name = [] then (Raise (ValueError ''item must be a non-empty string''), w)
         else
           (case as_int qty of
              None \<Rightarrow> (Raise (ValueError ''qty must be a positive integer''), w)
            | Some n \<Rightarrow>
                if n \<le> 0 then (Raise (ValueError ''qty must be a positive integer''), w)
                else
                  (case map_of (stock_data w) name of
                     None \<Rightarrow>
                       (Raise (ValueError (''Item '' @ quoted name @ '' not found'')),
                        emit WARNING ''Attempted to remove non-existent item: %s'' [ArgStr name] w)
                   | Some current \<Rightarrow>
                       if n \<ge> current then
                         (Return (),
                          emit INFO (''Removed item '' @ quoted ''%s'' @ '' from stock (removed all %d).'')
                            [ArgStr name, ArgInt current]
                            (w\<lparr>stock_data := AList.delete name (stock_data w)\<rparr>))
                       else
                         (Return (),
                          emit INFO (''Decreased '' @ quoted ''%s'' @ '' by %d (new qty=%d).'')
                            [ArgStr name, ArgInt n, ArgInt (current - n)]
                            (w\<lparr>stock_data := AList.update name (current - n) (stock_data w)\<rparr>))))
     | _ \<Rightarrow> (Raise (ValueError ''item must be a non-empty string''), w))"

text \<open>\<^verbatim>\<open>get_qty\<close> only reads the stock, so it returns no new state.\<close>

definition get_qty :: "pyval \<Rightarrow> world \<Rightarrow> int result" where
  "get_qty item w =
    (case item of
       VStr name \<Rightarrow>
         if name = [] then Raise (ValueError ''item must be a non-empty string'')
         else Return (dict_get (stock_data w) name 0)
     | _ \<Rightarrow> Raise (ValueError ''item must be a non-empty string''))"

definition check_low_items :: "pyval \<Rightarrow> world \<Rightarrow> string list result" where
  "check_low_items threshold w =
    (case as_int threshold of
       None \<Rightarrow> Raise (ValueError ''threshold must be a non-negative integer'')
     | Some t \<Rightarrow>
         if t < 0 then Raise (ValueError ''threshold must be a non-negative integer'')
         else Return (map fst (filter (\<lambda>(name, qty). qty < t) (stock_data w))))"

text \<open>
  \<^verbatim>\<open>print_data\<close>: \<^verbatim>\<open>sorted(stock_data.items())\<close> sorts the pairs, names first,
  and the loop prints one line for each; a quantity too long for an f-string ends the loop
  with the lines before it printed.  Standard output is taken to accept every line.
\<close>

definition print_line :: "string \<Rightarrow> world \<Rightarrow> world" where
  "print_line l w = w\<lparr>printed := printed w @ [l]\<rparr>"

definition report_line :: "string \<times> int \<Rightarrow> string" where
  "report_line p = fst p @ '' -> '' @ str_int (snd p)"



text \<open>
  \<^verbatim>\<open>int(v)\<close> as \<^verbatim>\<open>load_data\<close> uses it: it returns an integer or raises
  \<^verbatim>\<open>TypeError\<close>, \<^verbatim>\<open>ValueError\<close> or \<^verbatim>\<open>OverflowError\<close>.  A float is
  truncated towards zero.  \<open>parse\<close> is Python's reading of a string as an integer
  literal (\<open>None\<close> where it raises \<^verbatim>\<open>ValueError\<close>); it is a parameter.
\<close>

datatype int_outcome = IntOk int | IntTypeError | IntValueError | IntOverflowError

definition trunc_float :: "int \<Rightarrow> int \<Rightarrow> int" where
  "trunc_float m e =
    (if 0 \<le> e then m * 2 ^ nat e
     else if 0 \<le> m then m div 2 ^ nat (- e)
     else - ((- m) div 2 ^ nat (- e)))"

fun py_int :: "(string \<Rightarrow> int option) \<Rightarrow> pyval \<Rightarrow> int_outcome" where
  "py_int parse VNone = IntTypeError"
| "py_int parse (VBool b) = IntOk (if b then 1 else 0)"
| "py_int parse (VInt n) = IntOk n"
| "py_int parse (VFloat (FFinite m e)) = IntOk (trunc_float m e)"
| "py_int parse (VFloat (FInfinity negative)) = IntOverflowError"
| "py_int parse (VFloat FNaN) = IntValueError"
| "py_int parse (VStr s) = (case parse s of None \<Rightarrow> IntValueError | Some n \<Rightarrow> IntOk n)"
| "py_int parse (VList vs) = IntTypeError"
| "py_int parse (VDict kvs) = IntTypeError"

text \<open>
  The loop of \<^verbatim>\<open>load_data\<close> over \<^verbatim>\<open>data.items()\<close>, with the dict
  \<open>validated\<close> built so far.  \<^verbatim>\<open>OverflowError\<close> is not among the exceptions the
  loop catches, so it ends the loop and the call.
\<close>

fun validate ::
  "(string \<Rightarrow> int option) \<Rightarrow> (pyval \<times> pyval) list \<Rightarrow> stock \<Rightarrow> world
    \<Rightarrow> stock result \<times> world" where
  "validate parse [] validated w = (Return validated, w)"
| "validate parse ((k, v) # rest) validated w =
    (case k of
       VStr name \<Rightarrow>
         (case py_int parse v of
            IntOk n \<Rightarrow> validate parse rest (AList.update name n validated) w
          | IntTypeError \<Rightarrow>
              validate parse rest validated
                (emit WARNING ''Skipping key with non-integer value: %s -> %r''
                   [ArgStr name, ArgRepr v] w)
          | IntValueError \<Rightarrow>
              validate parse rest validated
                (emit WARNING ''Skipping key with non-integer value: %s -> %r''
                   [ArgStr name, ArgRepr v] w)
          | IntOverflowError \<Rightarrow> (Raise OverflowError, w))
     | _ \<Rightarrow>
         validate parse rest validated
           (emit WARNING ''Skipping non-string key in JSON: %r'' [ArgRepr k] w))"

definition load_data :: "(string \<Rightarrow> int option) \<Rightarrow> string \<Rightarrow> world \<Rightarrow> unit result \<times> world" where
  "load_data parse file w =
    (if read_fails w file then (Raise ReadFailure, w)
     else
       (case files w file of
          None \<Rightarrow>
            (Return (),
             emit INFO ''Inventory file %s not found; starting with current stock.''
               [ArgStr file] w)
        | Some NotUtf8 \<Rightarrow> (Raise UnicodeDecodeError, w)
        | Some Malformed \<Rightarrow>
            (Return (), emit ERROR ''Failed to decode JSON from %s: %s'' [ArgStr file, ArgExc] w)
        | Some (Oversized n) \<Rightarrow> (Raise (ValueError (digits_limit_read_message n)), w)
        | Some TooDeep \<Rightarrow> (Raise RecursionError, w)
        | Some (Document data) \<Rightarrow>
            (case data of
               VDict items \<Rightarrow>
                 (case validate parse items [] w of
                    (Return validated, w1) \<Rightarrow>
                      (Return (),
                       emit INFO ''Loaded inventory from %s'' [ArgStr file]
                         (w1\<lparr>stock_data := validated\<rparr>))
                  | (Raise e, w1) \<Rightarrow> (Raise e, w1))
             | _ \<Rightarrow>
                 (Return (),
                  emit ERROR ''Inventory file %s does not contain a JSON object; ignoring.''
                    [ArgStr file] w))))"

text \<open>
  \<^verbatim>\<open>json.dump(stock_data, fh)\<close> writes the object whose members are the entries of
  the stock, in order; \<^verbatim>\<open>json.load\<close> on that text returns \<open>json_of_stock\<close>.  It
  writes piece by piece, so when a quantity is too long to be written the
  \<^verbatim>\<open>ValueError\<close> passes \<^verbatim>\<open>except OSError\<close> and the file is left with the
  opening of an object, which no longer parses.  (A name is a UTF-8 string here, so the
  encoding of a name cannot fail.)
\<close>

definition json_of_stock :: "stock \<Rightarrow> pyval" where
  "json_of_stock d = VDict (map (\<lambda>(name, qty). (VStr name, VInt qty)) d)"

text \<open>Every quantity of the stock is within the digit limit, so can be written as text.\<close>

definition all_fit :: "stock \<Rightarrow> bool" where
  "all_fit d = list_all (\<lambda>(name, qty). \<not> too_long qty) d"

definition save_data :: "string \<Rightarrow> world \<Rightarrow> unit result \<times> world" where
  "save_data file w =
    (if write_fails w file then
       (Return (), emit ERROR ''Failed to save inventory to %s: %s'' [ArgStr file, ArgExc] w)
     else if all_fit (stock_data w) then
       (Return (),
        emit INFO ''Saved inventory to %s'' [ArgStr file]
          (w\<lparr>files := (files w)(file \<mapsto> Document (json_of_stock (stock_data w)))\<rparr>))
     else
       (Raise (ValueError digits_limit_message), w\<lparr>files := (files w)(file \<mapsto> Malformed)\<rparr>))"

text \<open>A state to run the operations from: nothing in stock, no files, nothing refused.\<close>

definition fresh :: world where
  "fresh = \<lparr>stock_data = [], files = (\<lambda>p. None), read_fails = (\<lambda>p. False),
     write_fails = (\<lambda>p. False), logged = [], printed = []\<rparr>"

text \<open>The invariants of the stock: a dict has each key once; no quantity is negative.\<close>

definition distinct_keys :: "stock \<Rightarrow> bool" where
  "distinct_keys d = distinct (map fst d)"

definition non_negative :: "stock \<Rightarrow> bool" where
  "non_negative d = list_all (\<lambda>(name, qty). 0 \<le> qty) d"

text \<open>
  A run of \<^verbatim>\<open>add_item(item, q)\<close> calls for one item, each at its own time and
  without a \<open>logs\<close> list.  Every call is made, whatever the one before it did, as by a
  caller that catches \<^verbatim>\<open>ValueError\<close> around each call (\<^verbatim>\<open>main\<close> does); the
  run returns what each call returned or raised, and the final state.
\<close>

fun add_each :: "pyval \<Rightarrow> (string \<times> int) list \<Rightarrow> world \<Rightarrow> unit result list \<times> world" where
  "add_each item [] w = ([], w)"
| "add_each item ((now, q) # rest) w =
    (case add_item now item (VInt q) None w of
       (r, logs, w1) \<Rightarrow> (case add_each item rest w1 of (rs, w2) \<Rightarrow> (r # rs, w2)))"

text \<open>Concrete states the general results are run on.\<close>

definition no_literals :: "string \<Rightarrow> int option" where
  "no_literals s = None"

definition example_stock :: stock where
  "example_stock = [(''apple'', 10), (''banana'', 2), (''pear'', 5)]"

definition example_world :: world where
  "example_world = fresh\<lparr>stock_data := example_stock\<rparr>"


definition negative_file :: world where
  "negative_file = fresh\<lparr>files := (\<lambda>p.
      if p = ''inventory.json'' then Some (Document (VDict [(VStr ''apple'', VInt (- 5))]))
      else None)\<rparr>"

definition empty_name_file :: world where
  "empty_name_file = fresh\<lparr>files := (\<lambda>p.
      if p = ''inventory.json'' then Some (Document (VDict [(VStr [], VInt 4)]))
      else None)\<rparr>"

text \<open>
  The least quantity with 4301 digits, and the state after
  \<^verbatim>\<open>add_item("apple", 10 ** 4300)\<close> on the empty stock.
\<close>

definition oversized_qty :: int where
  "oversized_qty = 10 ^ int_max_str_digits"


section \<open>Basic facts\<close>

lemma emit_fields [simp]:
  "stock_data (emit lv t a w) = stock_data w"
  "files (emit lv t a w) = files w"
  "read_fails (emit lv t a w) = read_fails w"
  "write_fails (emit lv t a w) = write_fails w"
  "printed (emit lv t a w) = printed w"
  "logged (emit lv t a w) = logged w @ [(lv, t, a)]"
  by (simp_all add: emit_def)

lemma print_line_fields [simp]:
  "stock_data (print_line l w) = stock_data w"
  "files (print_line l w) = files w"
  "read_fails (print_line l w) = read_fails w"
  "write_fails (print_line l w) = write_fails w"
  "logged (print_line l w) = logged w"
  "printed (print_line l w) = printed w @ [l]"
  by (simp_all add: print_line_def)

lemma example_world_fields:
  "stock_data example_world = example_stock"
  "files example_world p = None"
  "\<not> read_fails example_world p"
  "\<not> write_fails example_world p"
  "printed example_world = []"
  by (simp_all add: example_world_def fresh_def)

section \<open>The digit limit\<close>

text \<open>
  \<open>digits10\<close> writes a number in decimal, and a number has more than \<open>k\<close> digits
  exactly when it is at least \<open>10 ^ k\<close>.
\<close>

lemma digit_char_code: "d < 10 \<Longrightarrow> of_char (digit_char d) = (48 + d :: nat)"
proof -
  assume "d < 10"
  then have "d \<in> {0, 1, 2, 3, 4, 5, 6, 7, 8, 9}" by auto
  then show ?thesis
    by (auto simp add: digit_char_def)
qed

lemma digits10_value:
  "decimal_value (digits10 n) = n"
proof (induction n rule: digits10.induct)
  case (1 n)
  show ?case
  proof (cases "n < 10")
    case True
    then show ?thesis
      by (subst digits10.simps) (simp add: digit_char_code decimal_value_def)
  next
    case False
    then have "decimal_value (digits10 (n div 10)) = n div 10"
      using "1" by simp
    with False show ?thesis
      by (subst digits10.simps) (simp add: digit_char_code decimal_value_def)
  qed
qed

lemma digits10_nonempty: "digits10 n \<noteq> []"
  by (subst digits10.simps) simp

lemma digits10_length: "0 < k \<Longrightarrow> k < length (digits10 n) \<longleftrightarrow> 10 ^ k \<le> n"
proof (induction k arbitrary: n)
  case 0
  then show ?case by simp
next
  case (Suc k)
  show ?case
  proof (cases "n < 10")
    case True
    have "length (digits10 n) = 1"
      using True by (subst digits10.simps) simp
    moreover have "n < 10 ^ Suc k"
      using True by (metis One_nat_def Suc.prems less_le_trans power_increasing power_one_right
          Suc_leI one_le_numeral)
    ultimately show ?thesis by simp
  next
    case False
    then have len: "length (digits10 n) = Suc (length (digits10 (n div 10)))"
      by (subst digits10.simps) simp
    show ?thesis
    proof (cases "k = 0")
      case True
      have "0 < length (digits10 (n div 10))"
        using digits10_nonempty by simp
      with len True False show ?thesis by simp
    next
      case k: False
      then have "k < length (digits10 (n div 10)) \<longleftrightarrow> 10 ^ k \<le> n div 10"
        using Suc.IH by simp
      also have "\<dots> \<longleftrightarrow> 10 ^ k * 10 \<le> n"
        by (simp add: less_eq_div_iff_mult_less_eq)
      finally show ?thesis
        using len by (simp add: mult.commute)
    qed
  qed
qed

lemma too_long_iff: "too_long n \<longleftrightarrow> 10 ^ int_max_str_digits \<le> \<bar>n\<bar>"
proof -
  have "0 < int_max_str_digits" by (simp add: int_max_str_digits_def)
  then have "too_long n \<longleftrightarrow> 10 ^ int_max_str_digits \<le> nat \<bar>n\<bar>"
    unfolding too_long_def by (rule digits10_length)
  also have "\<dots> \<longleftrightarrow> int (10 ^ int_max_str_digits) \<le> \<bar>n\<bar>"
    by (rule le_nat_iff) simp
  also have "int (10 ^ int_max_str_digits) = 10 ^ int_max_str_digits"
    by (simp only: of_nat_power of_nat_numeral)
  finally show ?thesis .
qed

lemma fits_mono: "\<bar>a\<bar> \<le> \<bar>b\<bar> \<Longrightarrow> \<not> too_long b \<Longrightarrow> \<not> too_long a"
  by (simp add: too_long_iff)

lemma small_fits: "\<bar>n\<bar> < 10000 \<Longrightarrow> \<not> too_long n"
proof -
  assume a: "\<bar>n\<bar> < 10000"
  have "(10::int) ^ 4 \<le> 10 ^ int_max_str_digits"
    by (rule power_increasing) (simp_all add: int_max_str_digits_def)
  with a show ?thesis by (simp add: too_long_iff)
qed


lemma oversized_qty_positive: "0 < oversized_qty"
  by (simp add: oversized_qty_def)

section \<open>Facts about adding\<close>

lemma dict_get_update:
  "dict_get (AList.update k v d) k' dflt = (if k' = k then v else dict_get d k' dflt)"
  by (simp add: dict_get_def update_conv')

lemma update_fresh_key: "k \<notin> fst ` set d \<Longrightarrow> AList.update k v d = d @ [(k, v)]"
  by (induction d) auto

lemma add_item_valid:
  assumes "name \<noteq> []" and "0 \<le> q"
  shows "stock_data (snd (snd (add_item now (VStr name) (VInt q) logs w)))
          = AList.update name (dict_get (stock_data w) name 0 + q) (stock_data w)"
    and "fst (add_item now (VStr name) (VInt q) logs w)
          = (if too_long q \<or> too_long (dict_get (stock_data w) name 0)
                \<or> too_long (dict_get (stock_data w) name 0 + q)
             then Raise (ValueError digits_limit_message) else Return ())"
  using assms by (simp_all add: add_item_def Let_def dict_get_update)



section \<open>The stock invariants under add, remove and load\<close>

lemma non_negative_update:
  "non_negative d \<Longrightarrow> 0 \<le> v \<Longrightarrow> non_negative (AList.update k v d)"
  by (induction d) (auto simp add: non_negative_def)

lemma non_negative_delete: "non_negative d \<Longrightarrow> non_negative (AList.delete k d)"
  by (induction d) (auto simp add: non_negative_def)

lemma non_negative_lookup: "non_negative d \<Longrightarrow> map_of d k = Some v \<Longrightarrow> 0 \<le> v"
  by (induction d) (auto simp add: non_negative_def split: if_splits)

lemma non_negative_get: "non_negative d \<Longrightarrow> 0 \<le> dict_get d k 0"
  by (auto simp add: dict_get_def split: option.splits dest: non_negative_lookup)

lemma add_item_keeps_invariants:
  assumes "distinct_keys (stock_data w)" and "non_negative (stock_data w)"
  shows "distinct_keys (stock_data (snd (snd (add_item now item qty logs w)))) \<and>
         non_negative (stock_data (snd (snd (add_item now item qty logs w))))"
  using assms
  by (cases item)
     (auto simp add: add_item_def Let_def distinct_keys_def distinct_update
        non_negative_update non_negative_get split: option.splits)

lemma remove_item_keeps_invariants:
  assumes "distinct_keys (stock_data w)" and "non_negative (stock_data w)"
  shows "distinct_keys (stock_data (snd (remove_item item qty w))) \<and>
         non_negative (stock_data (snd (remove_item item qty w)))"
  using assms
  by (cases item)
     (auto simp add: remove_item_def distinct_keys_def distinct_update distinct_delete
        non_negative_update non_negative_delete split: option.splits)

lemma validate_distinct:
  "distinct_keys acc \<Longrightarrow> validate parse items acc w = (Return d, w') \<Longrightarrow> distinct_keys d"
proof (induction items arbitrary: acc w)
  case Nil
  then show ?case by simp
next
  case (Cons p items)
  obtain k v where p: "p = (k, v)" by (cases p)
  have upd: "distinct_keys (AList.update name n acc)" for name n
    using Cons.prems(1) by (simp add: distinct_keys_def distinct_update)
  from Cons.prems(2) p show ?case
    by (auto split: pyval.splits int_outcome.splits
        intro: Cons.IH [OF upd] Cons.IH [OF Cons.prems(1)])
qed

lemma validate_keeps_stock:
  "validate parse items acc w = (r, w') \<Longrightarrow> stock_data w' = stock_data w"
  by (induction items arbitrary: acc w)
     (auto split: pyval.splits int_outcome.splits)

lemma load_data_distinct:
  assumes "distinct_keys (stock_data w)"
  shows "distinct_keys (stock_data (snd (load_data parse file w)))"
proof -
  have e: "distinct_keys []" by (simp add: distinct_keys_def)
  have v: "validate parse items [] w = (Return d', w') \<Longrightarrow> distinct_keys d'" for items d' w'
    by (rule validate_distinct [OF e])
  show ?thesis
    using assms v validate_keeps_stock [of parse _ "[]" w]
    by (auto simp add: load_data_def
        split: option.splits content.splits pyval.splits prod.splits result.splits)
qed

section \<open>Loading can bring in a negative quantity\<close>

text \<open>
  Claim C1.  The stock is meant to hold no entry with a quantity below 0, whatever
  operations run, and in particular after \<^verbatim>\<open>load_data\<close>.  \<^verbatim>\<open>add_item\<close> rejects a
  negative quantity and \<^verbatim>\<open>remove_item\<close> deletes an entry rather than let it reach 0
  (see \<open>add_item_keeps_invariants\<close> and \<open>remove_item_keeps_invariants\<close>), but
  \<^verbatim>\<open>load_data\<close> checks only that \<^verbatim>\<open>int(v)\<close> succeeds.  Starting from the empty
  stock, loading a file that holds \<^verbatim>\<open>{"apple": -5}\<close> returns normally and leaves the
  entry \<^verbatim>\<open>apple\<close> with quantity \<open>-5\<close> in the stock.
\<close>

theorem load_data_negative_entry:
  "non_negative (stock_data negative_file) \<and>
   fst (load_data (\<lambda>s. None) ''inventory.json'' negative_file) = Return () \<and>
   stock_data (snd (load_data (\<lambda>s. None) ''inventory.json'' negative_file))
     = [(''apple'', - 5)] \<and>
   \<not> non_negative (stock_data (snd (load_data (\<lambda>s. None) ''inventory.json'' negative_file)))"
  by (simp add: load_data_def negative_file_def fresh_def non_negative_def)

section \<open>Saving and loading back\<close>

lemma validate_dumped:
  "distinct (map fst (acc @ d)) \<Longrightarrow>
   validate parse (map (\<lambda>(name, qty). (VStr name, VInt qty)) d) acc w = (Return (acc @ d), w)"
proof (induction d arbitrary: acc)
  case Nil
  then show ?case by simp
next
  case (Cons p d)
  obtain k q where p: "p = (k, q)" by (cases p)
  from Cons.prems p have new: "k \<notin> fst ` set acc" by auto
  from Cons.prems p have "distinct (map fst ((acc @ [(k, q)]) @ d))" by auto
  from Cons.IH [OF this] show ?case
    using new p by (simp add: update_fresh_key)
qed

text \<open>
  Claim C2.  For every stock (a dict, so with each key once), when \<^verbatim>\<open>save_data\<close>
  to a path succeeds (the file can be opened for writing and the call returns), then in any
  later state that still holds the file it wrote, whatever has become of the stock,
  \<^verbatim>\<open>load_data\<close> from that path, when the file can be read, returns normally and makes
  the stock equal to the one that was saved, each integer quantity unchanged.
\<close>

theorem save_load_roundtrip:
  assumes "distinct_keys (stock_data w)"
    and "\<not> write_fails w file" and "fst (save_data file w) = Return ()"
    and "files w2 file = files (snd (save_data file w)) file" and "\<not> read_fails w2 file"
  shows "fst (load_data parse file w2) = Return () \<and>
         stock_data (snd (load_data parse file w2)) = stock_data w"
proof -
  have fit: "all_fit (stock_data w)"
    using assms(2,3) by (simp add: save_data_def split: if_splits)
  then have "files w2 file = Some (Document (json_of_stock (stock_data w)))"
    using assms(2,4) by (simp add: save_data_def)
  moreover have "validate parse (map (\<lambda>(name, qty). (VStr name, VInt qty)) (stock_data w)) [] w2
          = (Return ([] @ stock_data w), w2)"
    using assms(1) by (intro validate_dumped) (simp add: distinct_keys_def)
  ultimately show ?thesis
    using assms(5) by (simp add: load_data_def json_of_stock_def)
qed

theorem save_load_roundtrip_witness:
  "fst (save_data ''inventory.json'' example_world) = Return () \<and>
   files (snd (save_data ''inventory.json'' example_world)) ''inventory.json''
     = Some (Document (VDict [(VStr ''apple'', VInt 10), (VStr ''banana'', VInt 2),
          (VStr ''pear'', VInt 5)])) \<and>
   fst (load_data no_literals ''inventory.json''
      ((snd (save_data ''inventory.json'' example_world))\<lparr>stock_data := []\<rparr>)) = Return () \<and>
   stock_data (snd (load_data no_literals ''inventory.json''
      ((snd (save_data ''inventory.json'' example_world))\<lparr>stock_data := []\<rparr>)))
     = [(''apple'', 10), (''banana'', 2), (''pear'', 5)]"
proof -
  have fit: "all_fit (stock_data example_world)"
    by (simp add: example_world_fields example_stock_def all_fit_def small_fits)
  have d: "distinct_keys (stock_data example_world)"
    by (simp add: example_world_fields example_stock_def distinct_keys_def)
  have s: "fst (save_data ''inventory.json'' example_world) = Return ()"
    using fit by (simp add: save_data_def example_world_fields)
  have f: "files (snd (save_data ''inventory.json'' example_world)) ''inventory.json''
     = Some (Document (VDict [(VStr ''apple'', VInt 10), (VStr ''banana'', VInt 2),
          (VStr ''pear'', VInt 5)]))"
    using fit by (simp add: save_data_def example_world_fields json_of_stock_def example_stock_def)
  have r: "\<not> read_fails ((snd (save_data ''inventory.json'' example_world))\<lparr>stock_data := []\<rparr>)
      ''inventory.json''"
    using fit by (simp add: save_data_def example_world_fields)
  show ?thesis
    using s f save_load_roundtrip [OF d example_world_fields(4) s _ r, of no_literals]
    by (simp add: example_world_fields example_stock_def)
qed

section \<open>Adding and reading a quantity\<close>

lemma add_each_Cons [simp]:
  "snd (add_each item ((now, q) # rest) w)
     = snd (add_each item rest (snd (snd (add_item now item (VInt q) None w))))"
  "fst (add_each item ((now, q) # rest) w)
     = fst (add_item now item (VInt q) None w)
       # fst (add_each item rest (snd (snd (add_item now item (VInt q) None w))))"
  by (simp_all split: prod.splits)

declare add_each.simps(2) [simp del]

lemma add_each_sum:
  assumes "name \<noteq> []" and "\<forall>c\<in>set calls. 0 \<le> snd c"
  shows "dict_get (stock_data (snd (add_each (VStr name) calls w))) name 0
           = dict_get (stock_data w) name 0 + sum_list (map snd calls)"
  using assms(2)
proof (induction calls arbitrary: w)
  case Nil
  then show ?case by simp
next
  case (Cons c calls)
  obtain now q where c: "c = (now, q)" by (cases c)
  with Cons.prems have q: "0 \<le> q" and rest: "\<forall>c\<in>set calls. 0 \<le> snd c" by auto
  show ?case
    unfolding c
    by (simp add: Cons.IH [OF rest] add_item_valid(1) [OF assms(1) q] dict_get_update)
qed

lemma add_each_results:
  assumes "name \<noteq> []" and "\<forall>c\<in>set calls. 0 \<le> snd c"
  shows "list_all (\<lambda>r. r = Return () \<or> r = Raise (ValueError digits_limit_message))
           (fst (add_each (VStr name) calls w))"
  using assms(2)
proof (induction calls arbitrary: w)
  case Nil
  then show ?case by simp
next
  case (Cons c calls)
  obtain now q where c: "c = (now, q)" by (cases c)
  with Cons.prems have q: "0 \<le> q" and rest: "\<forall>c\<in>set calls. 0 \<le> snd c" by auto
  show ?case
    unfolding c
    by (simp add: Cons.IH [OF rest] add_item_valid(2) [OF assms(1) q])
qed

lemma add_each_returns:
  assumes "name \<noteq> []" and "\<forall>c\<in>set calls. 0 \<le> snd c"
    and "0 \<le> dict_get (stock_data w) name 0"
    and "\<not> too_long (dict_get (stock_data w) name 0 + sum_list (map snd calls))"
  shows "list_all (\<lambda>r. r = Return ()) (fst (add_each (VStr name) calls w))"
  using assms(2-)
proof (induction calls arbitrary: w)
  case Nil
  then show ?case by simp
next
  case (Cons c calls)
  obtain now q where c: "c = (now, q)" by (cases c)
  with Cons.prems have q: "0 \<le> q" and rest: "\<forall>c\<in>set calls. 0 \<le> snd c" by auto
  let ?p = "dict_get (stock_data w) name 0"
  let ?w1 = "snd (snd (add_item now (VStr name) (VInt q) None w))"
  have s: "0 \<le> sum_list (map snd calls)"
    using rest by (intro sum_list_nonneg) auto
  have total: "\<not> too_long (?p + q + sum_list (map snd calls))"
    using Cons.prems(3) c by (simp add: add.assoc)
  have fits: "\<not> too_long q" "\<not> too_long ?p" "\<not> too_long (?p + q)"
    using q s Cons.prems(2) by (auto intro!: fits_mono [OF _ total])
  have p1: "dict_get (stock_data ?w1) name 0 = ?p + q"
    by (simp add: add_item_valid(1) [OF assms(1) q] dict_get_update)
  have "list_all (\<lambda>r. r = Return ()) (fst (add_each (VStr name) calls ?w1))"
    using q Cons.prems(2) total by (intro Cons.IH [OF rest]) (simp_all add: p1)
  then show ?case
    unfolding c
    using fits by (simp add: add_item_valid(2) [OF assms(1) q])
qed

text \<open>
  Claim C3.  For a non-empty string item and any run of \<^verbatim>\<open>add_item\<close> calls for it
  with integer quantities \<open>\<ge> 0\<close>, \<^verbatim>\<open>get_qty\<close> afterwards returns the quantity it
  returned before plus the sum of the quantities added.  No call fails validation: each
  returns normally, or, having stored the new quantity, raises the digit-limit
  \<^verbatim>\<open>ValueError\<close> while formatting its log entry; all return normally when the
  quantity before is not negative and the final total is within the limit.
  \<^verbatim>\<open>get_qty\<close> returns 0 for an item that is not in the stock, and raises
  \<^verbatim>\<open>ValueError\<close> for an item that is not a non-empty string.
\<close>

theorem get_qty_after_adds:
  "(name \<noteq> [] \<and> (\<forall>c\<in>set calls. 0 \<le> snd c) \<longrightarrow>
      (\<exists>q0. get_qty (VStr name) w = Return q0 \<and>
            get_qty (VStr name) (snd (add_each (VStr name) calls w))
              = Return (q0 + sum_list (map snd calls)) \<and>
            (0 \<le> q0 \<and> \<not> too_long (q0 + sum_list (map snd calls)) \<longrightarrow>
               list_all (\<lambda>r. r = Return ()) (fst (add_each (VStr name) calls w)))) \<and>
      list_all (\<lambda>r. r = Return () \<or> r = Raise (ValueError digits_limit_message))
        (fst (add_each (VStr name) calls w))) \<and>
   (name \<noteq> [] \<and> map_of (stock_data w) name = None \<longrightarrow> get_qty (VStr name) w = Return 0) \<and>
   (\<not> (\<exists>s. item = VStr s \<and> s \<noteq> []) \<longrightarrow>
      get_qty item w = Raise (ValueError ''item must be a non-empty string''))"
proof (intro conjI impI)
  assume a: "name \<noteq> [] \<and> (\<forall>c\<in>set calls. 0 \<le> snd c)"
  then show "list_all (\<lambda>r. r = Return () \<or> r = Raise (ValueError digits_limit_message))
        (fst (add_each (VStr name) calls w))"
    using add_each_results by blast
  from a show "\<exists>q0. get_qty (VStr name) w = Return q0 \<and>
            get_qty (VStr name) (snd (add_each (VStr name) calls w))
              = Return (q0 + sum_list (map snd calls)) \<and>
            (0 \<le> q0 \<and> \<not> too_long (q0 + sum_list (map snd calls)) \<longrightarrow>
               list_all (\<lambda>r. r = Return ()) (fst (add_each (VStr name) calls w)))"
    using add_each_sum [of name calls w] add_each_returns [of name calls w]
    by (simp add: get_qty_def)
next
  assume "name \<noteq> [] \<and> map_of (stock_data w) name = None"
  then show "get_qty (VStr name) w = Return 0"
    by (simp add: get_qty_def dict_get_def)
next
  assume "\<not> (\<exists>s. item = VStr s \<and> s \<noteq> [])"
  then show "get_qty item w = Raise (ValueError ''item must be a non-empty string'')"
    by (cases item) (simp_all add: get_qty_def)
qed

theorem get_qty_after_adds_witness:
  "get_qty (VStr ''apple'')
      (snd (add_each (VStr ''apple'') [(''t1'', 10), (''t2'', 5)] example_world))
     = Return 25 \<and>
   fst (add_each (VStr ''apple'') [(''t1'', 10), (''t2'', 5)] example_world)
     = [Return (), Return ()] \<and>
   get_qty (VStr ''apple'')
      (snd (add_each (VStr ''apple'') [(''t1'', oversized_qty), (''t2'', 5)] example_world))
     = Return (10 + (oversized_qty + 5)) \<and>
   get_qty (VStr ''kiwi'') example_world = Return 0 \<and>
   get_qty (VInt 3) example_world = Raise (ValueError ''item must be a non-empty string'')"
proof -
  have q0: "get_qty (VStr ''apple'') example_world = Return 10"
    by (simp add: get_qty_def dict_get_def example_world_fields example_stock_def)
  have absent: "map_of (stock_data example_world) ''kiwi'' = None"
    by (simp add: example_world_fields example_stock_def)
  have fit: "\<not> too_long 25"
    by (rule small_fits) simp
  have len: "length (fst (add_each (VStr ''apple'') [(''t1'', 10), (''t2'', 5)] example_world)) = 2"
    by simp
  have all: "list_all (\<lambda>r. r = Return ()) rs \<Longrightarrow> length rs = 2 \<Longrightarrow> rs = [Return (), Return ()]"
    for rs :: "unit result list"
    by (cases rs; cases "tl rs") auto
  have big: "0 \<le> oversized_qty"
    using oversized_qty_positive by simp
  show ?thesis
    using get_qty_after_adds [of "''apple''" "[(''t1'', 10), (''t2'', 5)]" example_world "VInt 3"]
      get_qty_after_adds [of "''apple''" "[(''t1'', oversized_qty), (''t2'', 5)]" example_world
        "VInt 3"]
      get_qty_after_adds [of "''kiwi''" "[]" example_world "VStr []"] q0 absent fit len all big
    by simp
qed

section \<open>Removing\<close>

text \<open>
  Claim C4, as amended.  For a non-empty item name in the stock and an integer quantity
  \<open>n > 0\<close>, \<^verbatim>\<open>remove_item\<close> returns normally; when \<open>n\<close> is at least the current
  quantity the entry is gone and \<^verbatim>\<open>get_qty\<close> then returns 0, otherwise the entry
  holds the current quantity minus \<open>n\<close>.  No other entry changes.
\<close>

theorem remove_item_present:
  assumes "name \<noteq> []" and "map_of (stock_data w) name = Some current"
    and "as_int qty = Some n" and "0 < n"
  shows "fst (remove_item (VStr name) qty w) = Return () \<and>
    (if n \<ge> current
     then name \<notin> fst ` set (stock_data (snd (remove_item (VStr name) qty w))) \<and>
          get_qty (VStr name) (snd (remove_item (VStr name) qty w)) = Return 0
     else map_of (stock_data (snd (remove_item (VStr name) qty w))) name = Some (current - n)) \<and>
    (\<forall>other. other \<noteq> name \<longrightarrow>
       map_of (stock_data (snd (remove_item (VStr name) qty w))) other
         = map_of (stock_data w) other)"
  using assms
  by (auto simp add: remove_item_def get_qty_def dict_get_def update_conv' delete_conv'
      delete_notin_dom map_of_eq_None_iff split: option.splits)

theorem remove_item_present_witness:
  "map_of (stock_data example_world) ''apple'' = Some 10 \<and>
   fst (remove_item (VStr ''apple'') (VInt 3) example_world) = Return () \<and>
   map_of (stock_data (snd (remove_item (VStr ''apple'') (VInt 3) example_world))) ''apple''
     = Some 7 \<and>
   get_qty (VStr ''apple'') (snd (remove_item (VStr ''apple'') (VInt 10) example_world))
     = Return 0"
proof -
  have present: "map_of (stock_data example_world) ''apple'' = Some 10"
    by (simp add: example_world_fields example_stock_def)
  show ?thesis
    using present
      remove_item_present [of "''apple''" example_world 10 "VInt 3" 3]
      remove_item_present [of "''apple''" example_world 10 "VInt 10" 10]
    by simp
qed

text \<open>
  The claim as first stated speaks of every item in the stock.  \<^verbatim>\<open>load_data\<close> accepts
  the empty string as a key, and \<^verbatim>\<open>remove_item\<close> rejects the empty string before it
  looks the item up: after loading \<^verbatim>\<open>{"": 4}\<close> the entry is in the stock, removing 4
  of it raises \<^verbatim>\<open>ValueError\<close>, the entry stays, and \<^verbatim>\<open>get_qty\<close> does not
  return 0 for it.
\<close>

theorem remove_item_empty_name_counterexample:
  "fst (load_data no_literals ''inventory.json'' empty_name_file) = Return () \<and>
   stock_data (snd (load_data no_literals ''inventory.json'' empty_name_file)) = [([], 4)] \<and>
   fst (remove_item (VStr []) (VInt 4)
      (snd (load_data no_literals ''inventory.json'' empty_name_file)))
     = Raise (ValueError ''item must be a non-empty string'') \<and>
   stock_data (snd (remove_item (VStr []) (VInt 4)
      (snd (load_data no_literals ''inventory.json'' empty_name_file)))) = [([], 4)] \<and>
   get_qty (VStr [])
      (snd (remove_item (VStr []) (VInt 4)
        (snd (load_data no_literals ''inventory.json'' empty_name_file))))
     \<noteq> Return 0"
  by (simp add: load_data_def empty_name_file_def fresh_def remove_item_def get_qty_def)



section \<open>Loading from a missing or unusable file\<close>




section \<open>Rejected additions\<close>

text \<open>
  Claim C6.  When the item is not a non-empty string, or the quantity is not an integer
  (not an instance of \<^verbatim>\<open>int\<close>, which in Python includes \<^verbatim>\<open>bool\<close>), or the
  quantity is negative, \<^verbatim>\<open>add_item\<close> raises \<^verbatim>\<open>ValueError\<close> and changes nothing:
  the stock, the rest of the state and the caller's \<open>logs\<close> are as before.
\<close>

theorem add_item_invalid:
  assumes "\<not> (\<exists>s. item = VStr s \<and> s \<noteq> []) \<or> as_int qty = None
    \<or> (\<exists>n. as_int qty = Some n \<and> n < 0)"
  shows "(\<exists>msg. fst (add_item now item qty logs w) = Raise (ValueError msg)) \<and>
         snd (add_item now item qty logs w) = (logs, w)"
  using assms by (cases item) (auto simp add: add_item_def split: option.splits)

theorem add_item_invalid_witness:
  "snd (add_item ''t'' (VStr ''banana'') (VInt (- 2)) None example_world)
     = (None, example_world) \<and>
   snd (add_item ''t'' (VStr ''banana'') (VStr ''ten'') None example_world)
     = (None, example_world) \<and>
   snd (add_item ''t'' (VStr []) (VInt 1) None example_world) = (None, example_world) \<and>
   snd (add_item ''t'' (VInt 123) (VInt 1) None example_world) = (None, example_world)"
  using add_item_invalid [of "VStr ''banana''" "VInt (- 2)" "''t''" None example_world]
    add_item_invalid [of "VStr ''banana''" "VStr ''ten''" "''t''" None example_world]
    add_item_invalid [of "VStr []" "VInt 1" "''t''" None example_world]
    add_item_invalid [of "VInt 123" "VInt 1" "''t''" None example_world]
  by simp

section \<open>The report\<close>






lemma report_line_text: "report_line (name, qty) = name @ '' -> '' @ str_int qty"
  by (simp add: report_line_def)




section \<open>Items low in stock\<close>

text \<open>
  Claim C8.  For an integer threshold \<open>t \<ge> 0\<close>, \<^verbatim>\<open>check_low_items\<close> returns a list
  whose elements are exactly the names of the entries with quantity strictly below \<open>t\<close>,
  each once, in no promised order.  For a threshold that is not an integer or is negative it
  raises \<^verbatim>\<open>ValueError\<close>.  With threshold 5 on the stock
  \<^verbatim>\<open>{"apple": 10, "banana": 2, "pear": 5}\<close> it returns \<^verbatim>\<open>["banana"]\<close>.
\<close>

theorem check_low_items_exact:
  "(as_int threshold = Some t \<and> 0 \<le> t \<longrightarrow>
      (\<exists>names. check_low_items threshold w = Return names \<and>
         set names = {name. \<exists>q. (name, q) \<in> set (stock_data w) \<and> q < t} \<and>
         (distinct_keys (stock_data w) \<longrightarrow> distinct names))) \<and>
   (as_int threshold = None \<or> (\<exists>t. as_int threshold = Some t \<and> t < 0) \<longrightarrow>
      check_low_items threshold w
        = Raise (ValueError ''threshold must be a non-negative integer'')) \<and>
   check_low_items (VInt 5)
      (w\<lparr>stock_data := [(''apple'', 10), (''banana'', 2), (''pear'', 5)]\<rparr>)
     = Return [''banana'']"
proof (intro conjI impI)
  assume a: "as_int threshold = Some t \<and> 0 \<le> t"
  let ?names = "map fst (filter (\<lambda>(name, qty). qty < t) (stock_data w))"
  have 1: "check_low_items threshold w = Return ?names"
    using a by (simp add: check_low_items_def)
  have 2: "set ?names = {name. \<exists>q. (name, q) \<in> set (stock_data w) \<and> q < t}"
    by force
  have 3: "distinct_keys (stock_data w) \<longrightarrow> distinct ?names"
    by (simp add: distinct_keys_def distinct_map_filter)
  from 1 2 3 show "\<exists>names. check_low_items threshold w = Return names \<and>
         set names = {name. \<exists>q. (name, q) \<in> set (stock_data w) \<and> q < t} \<and>
         (distinct_keys (stock_data w) \<longrightarrow> distinct names)"
    by blast
next
  assume "as_int threshold = None \<or> (\<exists>t. as_int threshold = Some t \<and> t < 0)"
  then show "check_low_items threshold w
        = Raise (ValueError ''threshold must be a non-negative integer'')"
    by (auto simp add: check_low_items_def)
next
  show "check_low_items (VInt 5)
      (w\<lparr>stock_data := [(''apple'', 10), (''banana'', 2), (''pear'', 5)]\<rparr>)
     = Return [''banana'']"
    by (simp add: check_low_items_def)
qed

theorem check_low_items_exact_witness:
  "check_low_items (VInt 5) example_world = Return [''banana''] \<and>
   check_low_items (VInt (- 1)) example_world
     = Raise (ValueError ''threshold must be a non-negative integer'') \<and>
   check_low_items (VStr ''5'') example_world
     = Raise (ValueError ''threshold must be a non-negative integer'')"
proof -
  have ex: "example_world\<lparr>stock_data := [(''apple'', 10), (''banana'', 2), (''pear'', 5)]\<rparr>
      = example_world"
    by (simp add: example_world_def example_stock_def)
  show ?thesis
    using check_low_items_exact [of "VInt 5" 5 example_world]
      check_low_items_exact [of "VInt (- 1)" 0 example_world]
      check_low_items_exact [of "VStr ''5''" 0 example_world] ex
    by simp
qed

section \<open>Adding nothing\<close>






end
